theory Spec2Isabelle
  imports Complex_Main
begin

section \<open>Data preparation utilities (src/utils/data_utils.py)\<close>

text \<open>
  The module is a script over pandas, Keras, scikit-learn, NLTK and tf.data.  Each function
  of the module is embedded as a HOL function of the same name.  Exceptions are values of
  the type \<open>error\<close> on the left of a sum; whatever a function reads from outside (files,
  installed corpora, random draws) is an explicit argument.
\<close>

datatype error =
    AssertionError
  | KeyError
  | ValueError
  | IndexError
  | LookupError
  | OSError

definition VOCAB_SIZE :: nat where
  "VOCAB_SIZE = 20000"

definition EMBEDDING_SIZE :: nat where
  "EMBEDDING_SIZE = 50"

section \<open>Python strings\<close>

text \<open>
  A Python \<open>str\<close> is modelled as a list of 8-bit characters, read as the code points 0 to 255:
  the range of the ISO-8859-1 decoding that \<open>load_data\<close> reads the corpus with.
\<close>

definition ord :: "char \<Rightarrow> nat" where
  "ord c = of_char c"

text \<open>\<open>str.isspace\<close> on one character; the regular expression class \<open>\s\<close> is the same set.\<close>

definition isspace :: "char \<Rightarrow> bool" where
  "isspace c = ((9 \<le> ord c \<and> ord c \<le> 13) \<or> (28 \<le> ord c \<and> ord c \<le> 32) \<or> ord c = 133 \<or> ord c = 160)"

definition isdigit :: "char \<Rightarrow> bool" where
  "isdigit c = (48 \<le> ord c \<and> ord c \<le> 57)"

text \<open>\<open>str.lower\<close>: the upper-case letters below 256 are A to Z and 192 to 222 without 215.\<close>

definition lower_char :: "char \<Rightarrow> char" where
  "lower_char c =
     (if (65 \<le> ord c \<and> ord c \<le> 90) \<or> (192 \<le> ord c \<and> ord c \<le> 222 \<and> ord c \<noteq> 215)
      then char_of (ord c + 32) else c)"

definition lower :: "string \<Rightarrow> string" where
  "lower s = map lower_char s"

text \<open>
  \<open>str.split()\<close> with no separator: the maximal runs of characters that are not white space.
  The first argument is the word being read.
\<close>

fun split_ws :: "string \<Rightarrow> string \<Rightarrow> string list" where
  "split_ws w [] = (if w = [] then [] else [w])"
| "split_ws w (c # cs) =
     (if isspace c then (if w = [] then split_ws [] cs else w # split_ws [] cs)
      else split_ws (w @ [c]) cs)"

definition split :: "string \<Rightarrow> string list" where
  "split s = split_ws [] s"

text \<open>\<open>sep.join(words)\<close>.\<close>

fun join :: "string \<Rightarrow> string list \<Rightarrow> string" where
  "join sep [] = []"
| "join sep [w] = w"
| "join sep (w # ws) = w @ sep @ join sep ws"

text \<open>\<open>str.strip()\<close>: white space removed at both ends.\<close>

definition strip :: "string \<Rightarrow> string" where
  "strip s = rev (dropWhile isspace (rev (dropWhile isspace s)))"

section \<open>Regular expressions: \<open>re.sub\<close>\<close>

text \<open>
  The patterns of \<open>text_to_wordlist\<close> use literals, character classes, alternation, \<open>?\<close>, and
  the greedy repetitions \<open>+\<close> and \<open>{2,}\<close> of a character class.  \<open>Many p n\<close> is \<open>n\<close> or more
  characters of the class \<open>p\<close>.
\<close>

datatype regex =
    Lit string
  | Cls "char \<Rightarrow> bool"
  | Seq regex regex
  | Alt regex regex
  | Opt regex
  | Many "char \<Rightarrow> bool" nat

fun starts_with :: "string \<Rightarrow> string \<Rightarrow> bool" where
  "starts_with [] s = True"
| "starts_with (a # as) [] = False"
| "starts_with (a # as) (c # cs) = (a = c \<and> starts_with as cs)"

text \<open>
  \<open>rmatch r s\<close>: every way \<open>r\<close> matches at the start of \<open>s\<close>, as the text left after the
  match, in the order the backtracking matcher of \<open>re\<close> tries them: the left alternative
  first, the longer repetition first.  The match \<open>re\<close> reports is the first one.
\<close>

fun rmatch :: "regex \<Rightarrow> string \<Rightarrow> string list" where
  "rmatch (Lit l) s = (if starts_with l s then [drop (length l) s] else [])"
| "rmatch (Cls p) s = (case s of [] \<Rightarrow> [] | c # cs \<Rightarrow> if p c then [cs] else [])"
| "rmatch (Seq a b) s = concat (map (rmatch b) (rmatch a s))"
| "rmatch (Alt a b) s = rmatch a s @ rmatch b s"
| "rmatch (Opt a) s = rmatch a s @ [s]"
| "rmatch (Many p n) s = map (\<lambda>j. drop j s) (rev [n ..< Suc (length (takeWhile p s))])"

text \<open>The length of the match of \<open>r\<close> at the start of \<open>s\<close>, if there is one.\<close>

definition match_len :: "regex \<Rightarrow> string \<Rightarrow> nat option" where
  "match_len r s = (case rmatch r s of [] \<Rightarrow> None | rest # _ \<Rightarrow> Some (length s - length rest))"

text \<open>
  \<open>re.sub(pattern, repl, text)\<close>: the text is scanned from the left; where the pattern matches,
  the replacement is written and the scan goes on after the match.  \<open>repl\<close> maps the matched
  text to its replacement (a template without group references is a constant function).
  \<open>skip\<close> counts the characters of the last match still to be passed over.  No pattern of the
  module matches the empty string; a match of length 0 is passed over.
\<close>

fun sub_scan :: "regex \<Rightarrow> (string \<Rightarrow> string) \<Rightarrow> nat \<Rightarrow> string \<Rightarrow> string" where
  "sub_scan r repl skip [] = []"
| "sub_scan r repl skip (c # cs) =
     (if 0 < skip then sub_scan r repl (skip - 1) cs
      else (case match_len r (c # cs) of
              None \<Rightarrow> c # sub_scan r repl 0 cs
            | Some n \<Rightarrow>
                if n = 0 then c # sub_scan r repl 0 cs
                else repl (take n (c # cs)) @ sub_scan r repl (n - 1) cs))"

definition re_sub :: "regex \<Rightarrow> (string \<Rightarrow> string) \<Rightarrow> string \<Rightarrow> string" where
  "re_sub r repl s = sub_scan r repl 0 s"

section \<open>Text normalizer: \<open>text_to_wordlist\<close>\<close>

text \<open>The values the \<open>text\<close> column of a frame can hold: a string, or something else.\<close>

datatype py_value =
    PyStr string
  | PyInt int
  | PyFloat real
  | PyNaN
  | PyNone

text \<open>The character classes of the patterns.\<close>

definition nonspace :: "char \<Rightarrow> bool" where
  "nonspace c = (\<not> isspace c)"

text \<open>
  \<open>[^A-Za-z^,!.\/'+-=]\<close>: everything but the letters, the characters \<open>^ , ! . / '\<close> and the
  range from \<open>+\<close> (43) to \<open>=\<close> (61).
\<close>

definition not_kept :: "char \<Rightarrow> bool" where
  "not_kept c =
     (\<not> ((65 \<le> ord c \<and> ord c \<le> 90) \<or> (97 \<le> ord c \<and> ord c \<le> 122)
         \<or> c = CHR ''^'' \<or> c = CHR '','' \<or> c = CHR ''!'' \<or> c = CHR ''.'' \<or> c = CHR ''/''
         \<or> c = CHR 0x27 \<or> (43 \<le> ord c \<and> ord c \<le> 61)))"

text \<open>\<open>@\S+|https?:\S+|http?:\S\<close>\<close>

definition mention_or_link :: regex where
  "mention_or_link =
     Alt (Seq (Lit ''@'') (Many nonspace 1))
       (Alt (Seq (Lit ''http'') (Seq (Opt (Lit ''s'')) (Seq (Lit '':'') (Many nonspace 1))))
            (Seq (Lit ''htt'') (Seq (Opt (Lit ''p'')) (Seq (Lit '':'') (Cls nonspace)))))"

text \<open>
  The substitutions under \<open># Clean the text\<close>, one rule for each line of the source, in its
  order.  In \<open>(\d+)(k)\<close> the first group is the match without its last character, so the
  template \<open>\g<1>000\<close> writes that and three zeros.  \<open>\0s\<close> is the character 0 followed by s.
\<close>

definition clean_rules :: "(regex \<times> (string \<Rightarrow> string)) list" where
  "clean_rules =
    [(mention_or_link, \<lambda>m. '' ''),
     (Cls isdigit, \<lambda>m. []),
     (Cls not_kept, \<lambda>m. '' ''),
     (Lit ''what's'', \<lambda>m. ''what is ''),
     (Lit ''that's'', \<lambda>m. ''that is ''),
     (Lit [CHR 0x27, CHR ''s''], \<lambda>m. '' ''),
     (Lit [CHR 0x27, CHR ''v'', CHR ''e''], \<lambda>m. '' have ''),
     (Lit ''can't'', \<lambda>m. ''cannot ''),
     (Lit ''n't'', \<lambda>m. '' not ''),
     (Lit ''i'm'', \<lambda>m. ''i am ''),
     (Lit [CHR 0x27, CHR ''r'', CHR ''e''], \<lambda>m. '' are ''),
     (Lit [CHR 0x27, CHR ''d''], \<lambda>m. '' would ''),
     (Lit [CHR 0x27, CHR ''l'', CHR ''l''], \<lambda>m. '' will ''),
     (Lit '','', \<lambda>m. '' ''),
     (Lit ''.'', \<lambda>m. '' ''),
     (Lit ''!'', \<lambda>m. '' ! ''),
     (Lit ''/'', \<lambda>m. '' ''),
     (Lit ''^'', \<lambda>m. '' ^ ''),
     (Lit ''+'', \<lambda>m. '' + ''),
     (Lit ''-'', \<lambda>m. '' - ''),
     (Lit ''='', \<lambda>m. '' = ''),
     (Lit [CHR 0x27], \<lambda>m. '' ''),
     (Seq (Many isdigit 1) (Lit ''k''), \<lambda>m. butlast m @ ''000''),
     (Lit '':'', \<lambda>m. '' : ''),
     (Lit '' e g '', \<lambda>m. '' eg ''),
     (Lit '' b g '', \<lambda>m. '' bg ''),
     (Lit '' u s '', \<lambda>m. '' american ''),
     (Lit [CHR 0x00, CHR ''s''], \<lambda>m. ''0''),
     (Lit '' 9 11 '', \<lambda>m. ''911''),
     (Lit ''e - mail'', \<lambda>m. ''email''),
     (Lit ''j k'', \<lambda>m. ''jk''),
     (Many isspace 2, \<lambda>m. '' '')]"

definition clean :: "string \<Rightarrow> string" where
  "clean s = foldl (\<lambda>t (r, repl). re_sub r repl t) s clean_rules"

text \<open>
  \<open>text_to_wordlist(text, remove_stopwords=False, stem_words=False)\<close>.

  Two things come from NLTK.  \<open>stopwords.words("english")\<close> reads the stop word corpus that
  is installed on the machine at the time of the call, and raises \<open>LookupError\<close> when there is
  none: \<open>stops\<close> is that corpus (\<open>None\<close> when it is not installed).  The Snowball stemmer is an
  algorithm of the library, \<open>stem\<close>.
\<close>

definition text_to_wordlist ::
  "(string \<Rightarrow> string) \<Rightarrow> string list option \<Rightarrow> py_value \<Rightarrow> bool \<Rightarrow> bool \<Rightarrow> error + string" where
  "text_to_wordlist stem stops text remove_stopwords stem_words =
     (let text0 = (case text of PyStr s \<Rightarrow> s | _ \<Rightarrow> ''unk'');
          text1 = split (lower text0)
      in case (if remove_stopwords
               then (case stops of
                       None \<Rightarrow> Inl LookupError
                     | Some ss \<Rightarrow> Inr (filter (\<lambda>w. w \<notin> set ss) text1))
               else Inr text1) of
           Inl e \<Rightarrow> Inl e
         | Inr text2 \<Rightarrow>
             let text3 = clean (join '' '' text2);
                 text4 = (if stem_words then join '' '' (map stem (split text3)) else text3)
             in Inr (strip text4))"

section \<open>Corpus loader: \<open>load_data\<close>\<close>

text \<open>
  A data frame is the list of its rows; a row has the columns of \<open>DATASET_COLUMNS\<close>.  The
  \<open>text\<close> column holds Python values as read from the CSV (a missing field is not a string)
  and strings once it has been cleaned, so the row is polymorphic in it.
\<close>

record 'a row =
  target :: int
  ids :: int
  date :: string
  flag :: string
  user :: string
  text' :: 'a

definition DATA_URL :: string where
  "DATA_URL = ''http://cs.stanford.edu/people/alecmgo/trainingandtestdata.zip''"

definition TRAIN_FILE :: string where
  "TRAIN_FILE = ''training.1600000.processed.noemoticon.csv''"

definition TEST_FILE :: string where
  "TEST_FILE = ''testdata.manual.2009.06.14.csv''"

definition EMBEDDING_URL :: string where
  "EMBEDDING_URL = ''http://nlp.stanford.edu/data/glove.twitter.27B.zip''"

definition EMBEDDING_FILE :: string where
  "EMBEDDING_FILE = ''glove.twitter.27B.50d.txt''"

text \<open>
  What the module reads from outside, as the answers the outside gives:
  \<^item> \<open>get_file w fname origin\<close>: \<open>tf.keras.utils.get_file\<close>, the local path of the file, or
    the error of a failed download;
  \<^item> \<open>read_csv w path\<close>: \<open>pd.read_csv(path, encoding=DATASET_ENCODING, names=DATASET_COLUMNS)\<close>;
  \<^item> \<open>read_lines w path\<close>: the lines of the text file at \<open>path\<close>;
  \<^item> \<open>parse_float32 w field\<close>: the number \<open>np.asarray(..., dtype="float32")\<close> reads from a
    field, \<open>None\<close> where it raises \<open>ValueError\<close>;
  \<^item> \<open>stop_corpus w\<close>: the NLTK stop word corpus, \<open>None\<close> when it is not installed;
  \<^item> \<open>snowball w\<close>: the Snowball stemmer;
  \<^item> \<open>permutation w n\<close>: the permutation of \<open>range(n)\<close> that the random generator of
    \<open>train_test_split\<close> draws;
  \<^item> \<open>random_sample w k\<close>: the \<open>k\<close>-th number in \<open>[0, 1)\<close> that \<open>np.random\<close> draws.
\<close>

record world =
  get_file :: "string \<Rightarrow> string \<Rightarrow> error + string"
  read_csv :: "string \<Rightarrow> error + py_value row list"
  read_lines :: "string \<Rightarrow> error + string list"
  parse_float32 :: "string \<Rightarrow> real option"
  stop_corpus :: "string list option"
  snowball :: "string \<Rightarrow> string"
  permutation :: "nat \<Rightarrow> nat list"
  random_sample :: "nat \<Rightarrow> real"

text \<open>\<open>maybe_download(file, url, extract=False)\<close>\<close>

definition maybe_download :: "world \<Rightarrow> string \<Rightarrow> string \<Rightarrow> error + string" where
  "maybe_download w file url = get_file w file url"

text \<open>
  \<open>df.text = df.text.progress_apply(lambda x: text_to_wordlist(x))\<close>: every row's text is
  replaced by its cleaned string, with both flags at their defaults; an exception in one
  call ends the whole.
\<close>

fun clean_frame :: "world \<Rightarrow> py_value row list \<Rightarrow> error + string row list" where
  "clean_frame w [] = Inr []"
| "clean_frame w (r # rs) =
     (case text_to_wordlist (snowball w) (stop_corpus w) (text' r) False False of
        Inl e \<Rightarrow> Inl e
      | Inr s \<Rightarrow>
          (case clean_frame w rs of
             Inl e \<Rightarrow> Inl e
           | Inr rs' \<Rightarrow>
               Inr (\<lparr>target = target r, ids = ids r, date = date r, flag = flag r,
                     user = user r, text' = s\<rparr> # rs')))"

text \<open>
  \<open>df.target.replace(4, 1, inplace=True)\<close>: in the column, each value equal to the first
  argument becomes the second (pandas of the module's time: the column is the frame's own).
\<close>

definition replace_target :: "int \<Rightarrow> int \<Rightarrow> 'a row list \<Rightarrow> 'a row list" where
  "replace_target a b df = map (\<lambda>r. if target r = a then r\<lparr>target := b\<rparr> else r) df"

text \<open>\<open>load_data()\<close>\<close>

definition load_data :: "world \<Rightarrow> error + (string row list \<times> string row list)" where
  "load_data w =
     (case maybe_download w TRAIN_FILE DATA_URL of
        Inl e \<Rightarrow> Inl e
      | Inr train_path \<Rightarrow>
     (case maybe_download w TEST_FILE DATA_URL of
        Inl e \<Rightarrow> Inl e
      | Inr test_path \<Rightarrow>
     (case read_csv w train_path of
        Inl e \<Rightarrow> Inl e
      | Inr df0 \<Rightarrow>
     (case read_csv w test_path of
        Inl e \<Rightarrow> Inl e
      | Inr inf_df0 \<Rightarrow>
     (case clean_frame w df0 of
        Inl e \<Rightarrow> Inl e
      | Inr df1 \<Rightarrow>
     (case clean_frame w inf_df0 of
        Inl e \<Rightarrow> Inl e
      | Inr inf_df \<Rightarrow> Inr (replace_target 4 1 df1, inf_df)))))))"

section \<open>Vocabulary builder and sequence encoder\<close>

text \<open>
  \<open>tf.keras.preprocessing.text.Tokenizer\<close> and \<open>pad_sequences\<close> belong to Keras, not to the
  module.  They are modelled here as Keras implements them, for the arguments the module
  passes: \<open>Tokenizer(num_words=VOCAB_SIZE)\<close> with the default filters, lower-casing, the split
  on a blank and no out-of-vocabulary token; \<open>pad_sequences(sequences, maxlen=50)\<close> with the
  defaults \<open>padding='pre'\<close>, \<open>truncating='pre'\<close>, \<open>value=0\<close>.

  A Python \<open>dict\<close> is an association list in insertion order, looked up with \<open>map_of\<close>.
\<close>

record tokenizer =
  num_words :: "nat option"
  word_counts :: "(string \<times> nat) list"
  word_index :: "(string \<times> nat) list"
  index_word :: "(nat \<times> string) list"

text \<open>The default \<open>filters\<close> of the tokenizer: punctuation without the apostrophe, tab, newline.\<close>

definition filters :: string where
  "filters = ''!'' @ [CHR 0x22] @ ''#$%&()*+,-./:;<=>?@['' @ [CHR 0x5C] @ '']^_'' @ [CHR 0x60]
             @ ''{|}~'' @ [CHR 0x09, CHR 0x0A]"

text \<open>\<open>str.split(sep)\<close> with a separator: the pieces between separators, empty ones too.\<close>

fun split_on :: "char \<Rightarrow> string \<Rightarrow> string \<Rightarrow> string list" where
  "split_on sep w [] = [w]"
| "split_on sep w (c # cs) = (if c = sep then w # split_on sep [] cs else split_on sep (w @ [c]) cs)"

text \<open>
  \<open>text_to_word_sequence\<close>: lower-case, every filtered character replaced by a blank, split
  on the blank, empty pieces dropped.
\<close>

definition text_to_word_sequence :: "string \<Rightarrow> string list" where
  "text_to_word_sequence input_text =
     filter (\<lambda>i. i \<noteq> [])
       (split_on (CHR '' '') []
          (map (\<lambda>c. if c \<in> set filters then CHR '' '' else c) (lower input_text)))"

text \<open>\<open>word_counts[w] += 1\<close>, or \<open>word_counts[w] = 1\<close> for a new word, which goes last.\<close>

fun count_word :: "(string \<times> nat) list \<Rightarrow> string \<Rightarrow> (string \<times> nat) list" where
  "count_word [] w = [(w, 1)]"
| "count_word ((k, n) # kvs) w = (if k = w then (k, n + 1) # kvs else (k, n) # count_word kvs w)"

text \<open>
  \<open>fit_on_texts\<close>: the words of every text are counted; the vocabulary is sorted by
  decreasing count (\<open>sort\<close> is stable, so words of equal count keep the order of their first
  occurrence); \<open>word_index\<close> numbers the sorted words from 1 and \<open>index_word\<close> is its inverse.
  Index 0 is never assigned.  All words are indexed: \<open>num_words\<close> plays no part in fitting.
\<close>

definition fit_on_texts :: "tokenizer \<Rightarrow> string list \<Rightarrow> tokenizer" where
  "fit_on_texts tk texts =
     (let wcounts = foldl count_word (word_counts tk) (concat (map text_to_word_sequence texts));
          sorted_voc = map fst (sort_key (\<lambda>x. - int (snd x)) wcounts);
          windex = zip sorted_voc [1 ..< Suc (length sorted_voc)]
      in tk\<lparr>word_counts := wcounts,
            word_index := windex,
            index_word := map (\<lambda>(w, c). (c, w)) windex\<rparr>)"

text \<open>
  \<open>texts_to_sequences\<close>: each word of a text is replaced by its index; a word that has no
  index is dropped, and so is a word whose index is \<open>num_words\<close> or more.
\<close>

definition text_to_sequence :: "tokenizer \<Rightarrow> string \<Rightarrow> nat list" where
  "text_to_sequence tk t =
     concat (map (\<lambda>w. case map_of (word_index tk) w of
                         None \<Rightarrow> []
                       | Some i \<Rightarrow>
                           (case num_words tk of
                              None \<Rightarrow> [i]
                            | Some n \<Rightarrow> if n \<noteq> 0 \<and> n \<le> i then [] else [i]))
                 (text_to_word_sequence t))"

definition texts_to_sequences :: "tokenizer \<Rightarrow> string list \<Rightarrow> nat list list" where
  "texts_to_sequences tk texts = map (text_to_sequence tk) texts"

text \<open>
  One row of \<open>pad_sequences\<close>: the row starts as \<open>maxlen\<close> zeros; an empty sequence leaves it
  so; otherwise \<open>trunc = s[-maxlen:]\<close> is written at the end of the row,
  \<open>x[idx, -len(trunc):] = trunc\<close>.  (\<open>maxlen\<close> is positive.)
\<close>

definition pad_row :: "nat \<Rightarrow> nat list \<Rightarrow> int list" where
  "pad_row maxlen s =
     (if s = [] then replicate maxlen 0
      else let trunc = drop (length s - maxlen) s
           in replicate (maxlen - length trunc) 0 @ map int trunc)"

definition pad_sequences :: "nat list list \<Rightarrow> nat \<Rightarrow> int list list" where
  "pad_sequences sequences maxlen = map (pad_row maxlen) sequences"

text \<open>\<open>get_tokenizer(text)\<close>\<close>

definition get_tokenizer :: "string list \<Rightarrow> tokenizer" where
  "get_tokenizer texts =
     fit_on_texts \<lparr>num_words = Some VOCAB_SIZE, word_counts = [], word_index = [], index_word = []\<rparr>
       texts"

text \<open>\<open>get_padded_sequences(tokenizer, text)\<close>\<close>

definition get_padded_sequences :: "tokenizer \<Rightarrow> string list \<Rightarrow> int list list" where
  "get_padded_sequences tk texts =
     (let sequences = texts_to_sequences tk texts;
          padded_seq = pad_sequences sequences 50
      in padded_seq)"

section \<open>Pipeline cache: \<open>get_data\<close>\<close>

text \<open>
  The artifacts as \<open>pickle.dump\<close> writes them, in the order of the tuple it is given:
  \<open>(train_X, test_X, train_y, test_y, inf_text, tokenizer)\<close>.
\<close>

type_synonym pickled =
  "int list list \<times> int list list \<times> int list \<times> int list \<times> int list list \<times> tokenizer"

text \<open>A file holds a pickle of such a tuple, or bytes that are not one.\<close>

datatype content = Pickle pickled | Bytes string

text \<open>
  The file system: the directories, the files with their contents, and the paths the
  process may create or write.  A path is the string the module passes.
\<close>

record filesystem =
  dirs :: "string set"
  files :: "string \<rightharpoonup> content"
  writable :: "string \<Rightarrow> bool"

text \<open>\<open>os.path.exists(path)\<close>\<close>

definition path_exists :: "filesystem \<Rightarrow> string \<Rightarrow> bool" where
  "path_exists fs p = (p \<in> dirs fs \<or> files fs p \<noteq> None)"

text \<open>\<open>os.path.join(a, b)\<close> for a relative \<open>b\<close>.\<close>

definition path_join :: "string \<Rightarrow> string \<Rightarrow> string" where
  "path_join a b = (if a = [] \<or> last a = CHR ''/'' then a @ b else a @ ''/'' @ b)"

text \<open>
  \<open>os.makedirs(path)\<close>: refuses a path that exists, the empty path, and a path it may not
  create.
\<close>

definition makedirs :: "filesystem \<Rightarrow> string \<Rightarrow> error + filesystem" where
  "makedirs fs p =
     (if path_exists fs p \<or> p = [] \<or> \<not> writable fs p then Inl OSError
      else Inr (fs\<lparr>dirs := insert p (dirs fs)\<rparr>))"

text \<open>
  \<open>with open(os.path.join(d, name), "wb") as f: pickle.dump(obj, f)\<close>: the directory must
  be there and the file must be allowed.
\<close>

definition dump_in :: "filesystem \<Rightarrow> string \<Rightarrow> string \<Rightarrow> pickled \<Rightarrow> error + filesystem" where
  "dump_in fs d name obj =
     (if d \<in> dirs fs \<and> path_join d name \<notin> dirs fs \<and> writable fs (path_join d name)
      then Inr (fs\<lparr>files := (files fs)(path_join d name \<mapsto> Pickle obj)\<rparr>)
      else Inl OSError)"

text \<open>
  \<open>with open(os.path.join(d, name), "rb") as f: pickle.load(f)\<close>: \<open>OSError\<close> when there is no
  such file, \<open>ValueError\<close> for what stands for the errors of unpickling.
\<close>

definition load_from :: "filesystem \<Rightarrow> string \<Rightarrow> string \<Rightarrow> error + pickled" where
  "load_from fs d name =
     (case files fs (path_join d name) of
        None \<Rightarrow> Inl OSError
      | Some (Bytes b) \<Rightarrow> Inl ValueError
      | Some (Pickle obj) \<Rightarrow> Inr obj)"

text \<open>
  \<open>train_test_split(text, df.target, test_size=0.25)\<close> (scikit-learn): of \<open>n\<close> samples,
  \<open>ceil(0.25 * n)\<close> go to the test set and the rest to the training set, which must not be
  empty; the samples are taken in the order of a random permutation, the test set first.
\<close>

definition train_test_split ::
  "world \<Rightarrow> int list list \<Rightarrow> int list
     \<Rightarrow> error + (int list list \<times> int list list \<times> int list \<times> int list)" where
  "train_test_split w X y =
     (let n = length X;
          n_test = (n + 3) div 4;
          n_train = n - n_test
      in if length y \<noteq> n \<or> n_train = 0 \<or> \<not> set (permutation w n) \<subseteq> {..< n} then Inl ValueError
         else let ind_test = take n_test (permutation w n);
                  ind_train = take n_train (drop n_test (permutation w n))
              in Inr (map (\<lambda>i. X ! i) ind_train, map (\<lambda>i. X ! i) ind_test,
                      map (\<lambda>i. y ! i) ind_train, map (\<lambda>i. y ! i) ind_test))"

text \<open>
  \<open>get_data(params)\<close>, with \<open>params.data_dir\<close> as \<open>data_dir\<close>.  The result is the returned
  tuple \<open>(train_X, train_y, test_X, test_y, inf_text, tokenizer)\<close>, or the exception, and the
  file system the call leaves.
\<close>

type_synonym prepared =
  "int list list \<times> int list \<times> int list list \<times> int list \<times> int list list \<times> tokenizer"

definition get_data :: "world \<Rightarrow> filesystem \<Rightarrow> string \<Rightarrow> (error + prepared) \<times> filesystem" where
  "get_data w fs data_dir =
     (if path_exists fs data_dir then
        (case load_from fs data_dir ''data.pkl'' of
           Inl e \<Rightarrow> (Inl e, fs)
         | Inr (train_X, test_X, train_y, test_y, inf_text, tk) \<Rightarrow>
             (Inr (train_X, train_y, test_X, test_y, inf_text, tk), fs))
      else
        (case load_data w of
           Inl e \<Rightarrow> (Inl e, fs)
         | Inr (df, inf_df) \<Rightarrow>
             let tk = get_tokenizer (map text' df);
                 text = get_padded_sequences tk (map text' df);
                 inf_text = get_padded_sequences tk (map text' inf_df)
             in (case train_test_split w text (map target df) of
                   Inl e \<Rightarrow> (Inl e, fs)
                 | Inr (train_X, test_X, train_y, test_y) \<Rightarrow>
                     (case makedirs fs data_dir of
                        Inl e \<Rightarrow> (Inl e, fs)
                      | Inr fs1 \<Rightarrow>
                          (case dump_in fs1 data_dir ''data.pkl''
                                  (train_X, test_X, train_y, test_y, inf_text, tk) of
                             Inl e \<Rightarrow> (Inl e, fs1)
                           | Inr fs2 \<Rightarrow>
                               (Inr (train_X, train_y, test_X, test_y, inf_text, tk), fs2))))))"

section \<open>Embedding loader: \<open>get_embedding_matrix\<close>\<close>

text \<open>
  One line of the embedding file: \<open>values = line.split()\<close>, \<open>word = values[0]\<close> (an empty
  line has no field 0), \<open>coefs = np.asarray(values[1:], dtype="float32")\<close> (a field that is
  not a number is refused), \<open>embeddings_index[word] = coefs\<close>.
\<close>

fun parse_coefs :: "world \<Rightarrow> string list \<Rightarrow> error + real list" where
  "parse_coefs w [] = Inr []"
| "parse_coefs w (f # fs) =
     (case parse_float32 w f of
        None \<Rightarrow> Inl ValueError
      | Some x \<Rightarrow> (case parse_coefs w fs of Inl e \<Rightarrow> Inl e | Inr xs \<Rightarrow> Inr (x # xs)))"

fun read_embeddings ::
  "world \<Rightarrow> (string \<rightharpoonup> real list) \<Rightarrow> string list \<Rightarrow> error + (string \<rightharpoonup> real list)" where
  "read_embeddings w embeddings_index [] = Inr embeddings_index"
| "read_embeddings w embeddings_index (line # rest) =
     (case split line of
        [] \<Rightarrow> Inl IndexError
      | word # vals \<Rightarrow>
          (case parse_coefs w vals of
             Inl e \<Rightarrow> Inl e
           | Inr coefs \<Rightarrow> read_embeddings w (embeddings_index(word \<mapsto> coefs)) rest))"

text \<open>
  \<open>np.random.uniform(-1, 1, (EMBEDDING_SIZE))\<close>: \<open>low + (high - low) * random_sample()\<close> for
  each of the components; \<open>k\<close> counts the numbers drawn so far.
\<close>

definition uniform :: "world \<Rightarrow> nat \<Rightarrow> real list" where
  "uniform w k = map (\<lambda>j. - 1 + (1 - (- 1)) * random_sample w (k + j)) [0 ..< EMBEDDING_SIZE]"

text \<open>
  \<open>embedding[i - 1] = embeddings_index[word]\<close> inside \<open>try\<close>: \<open>None\<close> is an exception, either
  the \<open>KeyError\<close> of a word that is not in the index or the \<open>ValueError\<close> of a vector that does
  not fit a row of 50 (a vector of one number fits: it is broadcast).
\<close>

definition lookup_row :: "(string \<rightharpoonup> real list) \<Rightarrow> string \<Rightarrow> real list option" where
  "lookup_row embeddings_index word =
     (case embeddings_index word of
        None \<Rightarrow> None
      | Some coefs \<Rightarrow>
          if length coefs = 50 then Some coefs
          else if length coefs = 1 then Some (replicate 50 (hd coefs))
          else None)"

text \<open>
  The loop \<open>for i in range(1, VOCAB_SIZE + 1)\<close>, over the indices still to do.  The lookup
  \<open>tokenizer.index_word[i]\<close> stands outside the \<open>try\<close>: its \<open>KeyError\<close> ends the call.  The
  bare \<open>except\<close> writes a random row.
\<close>

fun fill_rows ::
  "world \<Rightarrow> tokenizer \<Rightarrow> (string \<rightharpoonup> real list) \<Rightarrow> nat list \<Rightarrow> real list list \<times> nat
     \<Rightarrow> error + (real list list \<times> nat)" where
  "fill_rows w tk embeddings_index [] (embedding, k) = Inr (embedding, k)"
| "fill_rows w tk embeddings_index (i # rest) (embedding, k) =
     (case map_of (index_word tk) i of
        None \<Rightarrow> Inl KeyError
      | Some word \<Rightarrow>
          (case lookup_row embeddings_index word of
             Some coefs \<Rightarrow> fill_rows w tk embeddings_index rest (embedding[i - 1 := coefs], k)
           | None \<Rightarrow>
               fill_rows w tk embeddings_index rest
                 (embedding[i - 1 := uniform w k], k + EMBEDDING_SIZE)))"

text \<open>
  \<open>get_embedding_matrix(tokenizer)\<close>.  \<open>np.empty((VOCAB_SIZE, 50))\<close> does not say what the
  array holds; here it holds zeros.  \<open>k\<close> is the count of random numbers drawn before the call.
\<close>

definition get_embedding_matrix :: "world \<Rightarrow> nat \<Rightarrow> tokenizer \<Rightarrow> error + real list list" where
  "get_embedding_matrix w k tk =
     (case maybe_download w EMBEDDING_FILE EMBEDDING_URL of
        Inl e \<Rightarrow> Inl e
      | Inr embedding_path \<Rightarrow>
     (case read_lines w embedding_path of
        Inl e \<Rightarrow> Inl e
      | Inr lines \<Rightarrow>
     (case read_embeddings w Map.empty lines of
        Inl e \<Rightarrow> Inl e
      | Inr embeddings_index \<Rightarrow>
     (case fill_rows w tk embeddings_index [1 ..< VOCAB_SIZE + 1]
             (replicate VOCAB_SIZE (replicate 50 0), k) of
        Inl e \<Rightarrow> Inl e
      | Inr (embedding, k') \<Rightarrow> Inr embedding))))"

section \<open>Batch feeder: \<open>input_fn\<close>\<close>

text \<open>
  A \<open>tf.data.Dataset\<close> is built by chaining transformations onto a source.  The model keeps
  the chain itself: \<open>from_tensor_slices\<close> is the source, and \<open>shuffle\<close>, \<open>repeat\<close> and
  \<open>batch\<close> each wrap the dataset they are called on.  An element of the source is one row of
  the features, paired with its label when labels are given.
\<close>

datatype slice = Unlabelled "int list" | Labelled "int list" int

datatype dataset =
    FromTensorSlices "slice list"
  | Shuffle int int dataset
  | Repeat dataset
  | Batch int dataset

text \<open>
  \<open>tf.data.Dataset.from_tensor_slices\<close> (library): slices its argument along the first axis.
  Given the pair \<open>(features, labels)\<close> it refuses components whose first dimensions differ.
\<close>

definition from_tensor_slices :: "int list list \<Rightarrow> int list option \<Rightarrow> error + dataset" where
  "from_tensor_slices features labels =
     (case labels of
        None \<Rightarrow> Inr (FromTensorSlices (map Unlabelled features))
      | Some ls \<Rightarrow>
          if length ls = length features
          then Inr (FromTensorSlices (map (\<lambda>(x, y). Labelled x y) (zip features ls)))
          else Inl ValueError)"

text \<open>
  \<open>input_fn(features, labels, batch_size, buffer_size=None)\<close>: the assertion comes first;
  the source is \<open>features\<close> alone when \<open>labels is None\<close>; \<open>shuffle(buffer_size, seed=0)\<close> and
  \<open>repeat()\<close> are applied only when \<open>labels is not None\<close>; \<open>batch(batch_size)\<close> always.
\<close>

definition input_fn :: "int list list \<Rightarrow> int list option \<Rightarrow> int \<Rightarrow> int option \<Rightarrow> error + dataset" where
  "input_fn features labels batch_size buffer_size =
     (case buffer_size of
        None \<Rightarrow> Inl AssertionError
      | Some b \<Rightarrow>
          (case from_tensor_slices features labels of
             Inl e \<Rightarrow> Inl e
           | Inr dataset0 \<Rightarrow>
               let dataset1 = (if labels \<noteq> None then Repeat (Shuffle b 0 dataset0) else dataset0)
               in Inr (Batch batch_size dataset1)))"





section \<open>Example inputs\<close>

text \<open>
  A small outside world: the training CSV has two rows (one with a missing text), the
  test CSV one; the embedding file has vectors for \<open>good\<close> (50 numbers) and for \<open>day\<close> (two
  numbers, not a row of the matrix); the permutation is the identity and every random
  number is 0.
\<close>

definition good_line :: string where
  "good_line = ''good'' @ concat (replicate 50 '' 1'')"

definition example_world :: world where
  "example_world =
     \<lparr>get_file = (\<lambda>fname origin. Inr fname),
      read_csv = (\<lambda>path.
        if path = TRAIN_FILE
        then Inr [\<lparr>target = 4, ids = 1, date = ''d'', flag = ''q'', user = ''u'',
                    text' = PyStr ''Good day''\<rparr>,
                  \<lparr>target = 0, ids = 2, date = ''d'', flag = ''q'', user = ''v'',
                    text' = PyNaN\<rparr>]
        else Inr [\<lparr>target = 4, ids = 3, date = ''d'', flag = ''q'', user = ''x'',
                    text' = PyStr ''ok''\<rparr>]),
      read_lines = (\<lambda>path. Inr [good_line, ''day 1 2'']),
      parse_float32 = (\<lambda>field. if field = ''1'' then Some 1 else if field = ''2'' then Some 2 else None),
      stop_corpus = None,
      snowball = (\<lambda>x. x),
      permutation = (\<lambda>n. [0 ..< n]),
      random_sample = (\<lambda>k. 0)\<rparr>"

text \<open>The tokenizer that \<open>get_tokenizer\<close> fits on the one text \<open>a b b\<close>.\<close>

definition example_tokenizer :: tokenizer where
  "example_tokenizer =
     \<lparr>num_words = Some 20000,
      word_counts = [(''a'', 1), (''b'', 2)],
      word_index = [(''b'', 1), (''a'', 2)],
      index_word = [(1, ''b''), (2, ''a'')]\<rparr>"

text \<open>A text of 51 words.\<close>

definition long_text :: string where
  "long_text = concat (replicate 51 ''a '')"

text \<open>
  A tokenizer whose vocabulary has \<open>VOCAB_SIZE\<close> words: \<open>good\<close>, \<open>day\<close>, and words that no
  embedding file of the examples lists.
\<close>

definition example_word :: "nat \<Rightarrow> string" where
  "example_word i = (if i = 1 then ''good'' else if i = 2 then ''day'' else ''w'' @ replicate i CHR ''x'')"

definition large_tokenizer :: tokenizer where
  "large_tokenizer =
     \<lparr>num_words = Some VOCAB_SIZE,
      word_counts = map (\<lambda>i. (example_word i, 1)) [1 ..< VOCAB_SIZE + 1],
      word_index = map (\<lambda>i. (example_word i, i)) [1 ..< VOCAB_SIZE + 1],
      index_word = map (\<lambda>i. (i, example_word i)) [1 ..< VOCAB_SIZE + 1]\<rparr>"

text \<open>An empty file system in which everything may be written, and a world without network.\<close>

definition empty_filesystem :: filesystem where
  "empty_filesystem = \<lparr>dirs = {}, files = Map.empty, writable = (\<lambda>p. True)\<rparr>"

definition offline_world :: world where
  "offline_world = example_world\<lparr>get_file := (\<lambda>fname origin. Inl OSError)\<rparr>"

section \<open>Properties of the text normalizer\<close>

lemma normalize_unk:
  "text_to_wordlist stem stops (PyStr ''unk'') False False = Inr ''unk''"
  by (simp add: text_to_wordlist_def split_def lower_def lower_char_def ord_def isspace_def
      clean_def clean_rules_def re_sub_def match_len_def strip_def mention_or_link_def
      nonspace_def isdigit_def not_kept_def)

lemma non_string_is_unk:
  "\<forall>s. text \<noteq> PyStr s \<Longrightarrow>
     text_to_wordlist stem stops text rs sw = text_to_wordlist stem stops (PyStr ''unk'') rs sw"
  by (cases "text") (simp_all add: text_to_wordlist_def)

lemma without_stopwords_total:
  "\<exists>s. text_to_wordlist stem stops text False sw = Inr s"
  by (simp add: text_to_wordlist_def Let_def)




text \<open>
  C9: for every argument that is not a string, \<open>text_to_wordlist\<close> does what it does for the
  string \<open>"unk"\<close>, under every pair of flags; with the default flags that is the string
  \<open>"unk"\<close>, and without \<open>remove_stopwords\<close> it is always a string, never an exception.
\<close>

theorem text_to_wordlist_non_string:
  assumes "\<forall>s. text \<noteq> PyStr s"
  shows "text_to_wordlist stem stops text remove_stopwords stem_words
           = text_to_wordlist stem stops (PyStr ''unk'') remove_stopwords stem_words
         \<and> text_to_wordlist stem stops text False False = Inr ''unk''
         \<and> (\<exists>s. text_to_wordlist stem stops text False stem_words = Inr s)"
  using non_string_is_unk [OF assms] normalize_unk without_stopwords_total
  by metis

theorem text_to_wordlist_non_string_witness:
  "text_to_wordlist (\<lambda>x. x) None PyNaN True False
     = text_to_wordlist (\<lambda>x. x) None (PyStr ''unk'') True False
   \<and> text_to_wordlist (\<lambda>x. x) None PyNaN False False = Inr ''unk''
   \<and> PyNaN \<noteq> PyStr ''unk''"
  using text_to_wordlist_non_string [of PyNaN "\<lambda>x. x" None True False]
  by simp

section \<open>Properties of the corpus loader\<close>

lemma clean_frame_targets:
  "clean_frame w raw = Inr df \<Longrightarrow> map target df = map target raw"
  by (induction raw arbitrary: df) (auto split: sum.splits)

lemma replace_target_nth:
  "i < length df \<Longrightarrow>
     target (replace_target a b df ! i) = (if target (df ! i) = a then b else target (df ! i))"
  by (simp add: replace_target_def)

lemma load_data_example:
  "load_data example_world =
     Inr ([\<lparr>target = 1, ids = 1, date = ''d'', flag = ''q'', user = ''u'', text' = ''good day''\<rparr>,
           \<lparr>target = 0, ids = 2, date = ''d'', flag = ''q'', user = ''v'', text' = ''unk''\<rparr>],
          [\<lparr>target = 4, ids = 3, date = ''d'', flag = ''q'', user = ''x'', text' = ''ok''\<rparr>])"
  by code_simp

text \<open>
  C6: in the first frame that \<open>load_data\<close> returns, the target of a row is 1 where the raw
  training CSV has 4, and is the raw target everywhere else; the frame has the rows of the
  CSV, in their order.
\<close>

theorem load_data_remaps_target:
  assumes "load_data w = Inr (df, inf_df)"
  shows "\<exists>train_path raw.
           maybe_download w TRAIN_FILE DATA_URL = Inr train_path
         \<and> read_csv w train_path = Inr raw
         \<and> length df = length raw
         \<and> (\<forall>i < length raw.
               target (df ! i) = (if target (raw ! i) = 4 then 1 else target (raw ! i)))"
proof -
  from assms obtain train_path test_path raw inf_raw df1 where
    p: "maybe_download w TRAIN_FILE DATA_URL = Inr train_path"
    and r: "read_csv w train_path = Inr raw"
    and c: "clean_frame w raw = Inr df1"
    and d: "df = replace_target 4 1 df1"
    by (auto simp: load_data_def split: sum.splits)
  from c have t: "map target df1 = map target raw"
    by (rule clean_frame_targets)
  then have len: "length df1 = length raw"
    by (metis length_map)
  have "target (df ! i) = (if target (raw ! i) = 4 then 1 else target (raw ! i))"
    if "i < length raw" for i
  proof -
    from that len have i: "i < length df1" by simp
    from t have "map target df1 ! i = map target raw ! i" by simp
    with i that have "target (df1 ! i) = target (raw ! i)" by simp
    with d i show ?thesis by (simp add: replace_target_nth)
  qed
  with p r len d show ?thesis
    by (simp add: replace_target_def)
qed

theorem load_data_remaps_target_witness:
  "map target (fst (projr (load_data example_world))) = [1, 0]
   \<and> map target (projr (read_csv example_world TRAIN_FILE)) = [4, 0]
   \<and> isl (load_data example_world) = False"
  using load_data_remaps_target [OF load_data_example] load_data_example
  by (simp add: example_world_def)

section \<open>Properties of the sequence encoder\<close>

lemma length_pad_row: "0 < maxlen \<Longrightarrow> length (pad_row maxlen s) = maxlen"
  by (simp add: pad_row_def Let_def)

lemma pad_row_long:
  "maxlen < length s \<Longrightarrow> pad_row maxlen s = map int (drop (length s - maxlen) s)"
  by (auto simp: pad_row_def Let_def)

lemma pad_row_short:
  "length s \<le> maxlen \<Longrightarrow> pad_row maxlen s = replicate (maxlen - length s) 0 @ map int s"
  by (auto simp: pad_row_def Let_def)

lemma long_text_words: "text_to_word_sequence long_text = replicate 51 ''a''"
  by (simp add: long_text_def text_to_word_sequence_def filters_def lower_def lower_char_def
      ord_def eval_nat_numeral)

lemma long_text_sequence: "text_to_sequence example_tokenizer long_text = replicate 51 2"
  unfolding text_to_sequence_def long_text_words by (simp add: example_tokenizer_def)

lemma short_text_sequence: "text_to_sequence example_tokenizer ''b c a'' = [1, 2]"
  by (simp add: text_to_sequence_def example_tokenizer_def text_to_word_sequence_def filters_def
      lower_def lower_char_def ord_def)

text \<open>
  C2: for every tokenizer and every list of texts, \<open>get_padded_sequences\<close> returns one row
  for each text, and every row has length exactly 50: a token sequence longer than 50 is cut
  to 50 entries (its last 50), a shorter one is filled up with zeros (in front) to length 50.
\<close>

theorem get_padded_sequences_rows:
  "length (get_padded_sequences tk texts) = length texts
   \<and> (\<forall>i < length texts.
         length (get_padded_sequences tk texts ! i) = 50
       \<and> (50 < length (texts_to_sequences tk texts ! i) \<longrightarrow>
            get_padded_sequences tk texts ! i
              = map int (drop (length (texts_to_sequences tk texts ! i) - 50)
                           (texts_to_sequences tk texts ! i)))
       \<and> (length (texts_to_sequences tk texts ! i) \<le> 50 \<longrightarrow>
            get_padded_sequences tk texts ! i
              = replicate (50 - length (texts_to_sequences tk texts ! i)) 0
                  @ map int (texts_to_sequences tk texts ! i)))"
  by (simp add: get_padded_sequences_def pad_sequences_def texts_to_sequences_def
      length_pad_row pad_row_long pad_row_short)

theorem get_padded_sequences_rows_witness:
  "length (texts_to_sequences example_tokenizer [long_text, ''b c a''] ! 0) = 51
   \<and> get_padded_sequences example_tokenizer [long_text, ''b c a''] ! 0 = replicate 50 2
   \<and> length (texts_to_sequences example_tokenizer [long_text, ''b c a''] ! 1) = 2
   \<and> get_padded_sequences example_tokenizer [long_text, ''b c a''] ! 1 = replicate 48 0 @ [1, 2]"
proof -
  have s: "texts_to_sequences example_tokenizer [long_text, ''b c a''] = [replicate 51 2, [1, 2]]"
    by (simp add: texts_to_sequences_def long_text_sequence short_text_sequence)
  have d: "drop (Suc 0) (replicate 51 (2::nat)) = replicate 50 2"
    by simp
  from get_padded_sequences_rows [of example_tokenizer "[long_text, ''b c a'']"]
  have "get_padded_sequences example_tokenizer [long_text, ''b c a''] ! 0
          = map int (drop (51 - 50) (replicate 51 2))"
    and "get_padded_sequences example_tokenizer [long_text, ''b c a''] ! 1
          = replicate (50 - 2) 0 @ map int [1, 2]"
    unfolding s by auto
  with s d show ?thesis
    by simp
qed

lemma num_words_fit: "num_words (fit_on_texts tk texts) = num_words tk"
  by (simp add: fit_on_texts_def Let_def)

lemma text_to_sequence_bound:
  "num_words tk = Some n \<Longrightarrow> 0 < n \<Longrightarrow> x \<in> set (text_to_sequence tk t) \<Longrightarrow> x < n"
  by (auto simp: text_to_sequence_def split: option.splits if_splits)

lemma pad_row_entries:
  "x \<in> set (pad_row maxlen s) \<Longrightarrow> x = 0 \<or> x \<in> int ` set s"
  by (auto simp: pad_row_def Let_def split: if_splits dest: in_set_dropD)

lemma get_tokenizer_example: "get_tokenizer [''a b b''] = example_tokenizer"
  by (simp add: get_tokenizer_def fit_on_texts_def text_to_word_sequence_def filters_def
      lower_def lower_char_def ord_def VOCAB_SIZE_def example_tokenizer_def)

text \<open>
  C3: whatever corpus the tokenizer is fitted on and whatever texts are encoded with it,
  every integer in the padded sequences is at least 0 and strictly less than \<open>VOCAB_SIZE\<close>.
\<close>

theorem padded_entries_below_vocab_size:
  "\<forall>row \<in> set (get_padded_sequences (get_tokenizer corpus) texts).
     \<forall>x \<in> set row. 0 \<le> x \<and> x < int VOCAB_SIZE"
proof (intro ballI)
  fix row x
  assume row: "row \<in> set (get_padded_sequences (get_tokenizer corpus) texts)" and x: "x \<in> set row"
  have nw: "num_words (get_tokenizer corpus) = Some VOCAB_SIZE"
    by (simp add: get_tokenizer_def num_words_fit)
  from row obtain t where "row = pad_row 50 (text_to_sequence (get_tokenizer corpus) t)"
    by (auto simp: get_padded_sequences_def pad_sequences_def texts_to_sequences_def)
  with x have "x = 0 \<or> x \<in> int ` set (text_to_sequence (get_tokenizer corpus) t)"
    by (auto dest: pad_row_entries)
  moreover have "y < VOCAB_SIZE" if "y \<in> set (text_to_sequence (get_tokenizer corpus) t)" for y
    using text_to_sequence_bound [OF nw _ that] by (simp add: VOCAB_SIZE_def)
  ultimately show "0 \<le> x \<and> x < int VOCAB_SIZE"
    by (auto simp: VOCAB_SIZE_def)
qed

theorem padded_entries_below_vocab_size_witness:
  "get_padded_sequences (get_tokenizer [''a b b'']) [''b c a''] = [replicate 48 0 @ [1, 2]]
   \<and> (2::int) \<in> set (replicate 48 0 @ [1, 2])
   \<and> (2::int) < int VOCAB_SIZE"
proof -
  have e: "get_padded_sequences (get_tokenizer [''a b b'']) [''b c a''] = [replicate 48 0 @ [1, 2]]"
    by (simp add: get_tokenizer_example get_padded_sequences_def texts_to_sequences_def
        short_text_sequence pad_sequences_def pad_row_def)
  have m: "(2::int) \<in> set (replicate 48 0 @ [1, 2])"
    by simp
  from padded_entries_below_vocab_size [of "[''a b b'']" "[''b c a'']"] e m
  have "(2::int) < int VOCAB_SIZE"
    by auto
  with e m show ?thesis
    by simp
qed

section \<open>Properties of the pipeline cache\<close>

lemma length_get_padded_sequences:
  "length (get_padded_sequences tk texts) = length texts"
  by (simp add: get_padded_sequences_def pad_sequences_def texts_to_sequences_def)

lemma empty_filesystem_no_cache: "\<not> path_exists empty_filesystem ''cache''"
  by (simp add: path_exists_def empty_filesystem_def)

lemma get_data_example:
  "\<exists>prepared fs'. get_data example_world empty_filesystem ''cache'' = (Inr prepared, fs')"
  unfolding get_data_def load_data_example
  by (simp add: train_test_split_def length_get_padded_sequences makedirs_def dump_in_def
      path_join_def path_exists_def example_world_def empty_filesystem_def Let_def
      atLeast0LessThan)

text \<open>
  C5: when \<open>get_data\<close> runs with a \<open>data_dir\<close> that does not exist and returns (so it has
  computed the artifacts and written them), a second run with the same \<open>data_dir\<close> on the
  file system the first run left returns the same tuple
  \<open>(train_X, train_y, test_X, test_y, inf_text, tokenizer)\<close>.  The second run computes
  nothing: its result is the same in every outside world \<open>w'\<close> (other CSV files, no network,
  another random permutation), and it leaves the file system as it is.
\<close>

theorem get_data_cache_roundtrip:
  assumes "\<not> path_exists fs data_dir"
    and "get_data w fs data_dir = (Inr prepared, fs')"
  shows "get_data w' fs' data_dir = (Inr prepared, fs')"
proof -
  from assms obtain train_X test_X train_y test_y inf_text tk fs1 where
    t: "prepared = (train_X, train_y, test_X, test_y, inf_text, tk)"
    and m: "makedirs fs data_dir = Inr fs1"
    and d: "dump_in fs1 data_dir ''data.pkl'' (train_X, test_X, train_y, test_y, inf_text, tk) = Inr fs'"
    by (auto simp: get_data_def Let_def split: sum.splits prod.splits)
  from m have "data_dir \<in> dirs fs1"
    by (auto simp: makedirs_def split: if_splits)
  with d have e: "path_exists fs' data_dir"
    and l: "load_from fs' data_dir ''data.pkl'' = Inr (train_X, test_X, train_y, test_y, inf_text, tk)"
    by (auto simp: dump_in_def path_exists_def load_from_def split: if_splits)
  from e l t show ?thesis
    by (simp add: get_data_def)
qed

theorem get_data_cache_roundtrip_witness:
  "\<not> path_exists empty_filesystem ''cache''
   \<and> isl (fst (get_data example_world empty_filesystem ''cache'')) = False
   \<and> get_data offline_world (snd (get_data example_world empty_filesystem ''cache'')) ''cache''
       = get_data example_world empty_filesystem ''cache''
   \<and> isl (fst (get_data offline_world empty_filesystem ''cache'')) = True"
proof -
  from get_data_example obtain prepared fs' where
    g: "get_data example_world empty_filesystem ''cache'' = (Inr prepared, fs')"
    by blast
  have o: "isl (fst (get_data offline_world empty_filesystem ''cache''))"
    by (simp add: get_data_def empty_filesystem_no_cache load_data_def maybe_download_def
        offline_world_def)
  from get_data_cache_roundtrip [OF empty_filesystem_no_cache g, of offline_world] g o
  show ?thesis
    by (simp add: empty_filesystem_no_cache)
qed

section \<open>Properties of the batch feeder\<close>

text \<open>
  C10: \<open>input_fn\<close> requires a buffer size on every call.  With \<open>buffer_size = None\<close> the
  assertion fails before any dataset is built, whatever the features, the labels (also
  \<open>None\<close>, where the buffer size would not be used) and the batch size are.
\<close>

theorem input_fn_requires_buffer_size:
  "input_fn features labels batch_size None = Inl AssertionError"
  by (simp add: input_fn_def)




end
